theory Spec2Isabelle
  imports Main "HOL-Library.Signed_Division"
begin

unbundle bit_operations_syntax

section \<open>Constants of main.cpp\<close>

text \<open>
  The program is one translation unit, \<^verbatim>\<open>main.cpp\<close>. Its C \<^verbatim>\<open>int\<close>s are modelled as
  \<^typ>\<open>int\<close>; division and remainder are C's truncating ones (\<open>sdiv\<close>, \<open>smod\<close>).
  Lemma \<open>reachable_no_overflow\<close> below shows that the position arithmetic of the event
  loop stays far inside the 32-bit range, so no wrap-around is left out.
\<close>

definition SCREEN_WIDTH :: int where
  "SCREEN_WIDTH = 244 * 3"

definition SCREEN_HEIGHT :: int where
  "SCREEN_HEIGHT = 288 * 3"

definition xVel :: int where
  "xVel = 10"

definition yVel :: int where
  "yVel = 10"

text \<open>The locals \<^verbatim>\<open>iW\<close>, \<^verbatim>\<open>iH\<close> of \<^verbatim>\<open>main\<close> (line 227) are never assigned again.\<close>

definition iW :: int where
  "iW = 100"

definition iH :: int where
  "iH = 100"

text \<open>\<^verbatim>\<open>IMG_INIT_PNG\<close> of SDL\_image's header.\<close>

definition IMG_INIT_PNG :: int where
  "IMG_INIT_PNG = 2"

section \<open>What the program does to the libraries: a log of calls\<close>

datatype subsystem = SDL | SDL_mixer | SDL_image | SDL_ttf

datatype resource = Window | Renderer | Font | Surface | Text | Image | Song

record SDL_Rect =
  rect_x :: int
  rect_y :: int
  rect_w :: int
  rect_h :: int

text \<open>A texture handle: which handle it is and the native size \<^verbatim>\<open>SDL_QueryTexture\<close> reports.\<close>

record SDL_Texture =
  tex_res :: resource
  tex_w :: int
  tex_h :: int

text \<open>
  \<open>Init\<close> is the initialising call of a subsystem (\<^verbatim>\<open>SDL_Init\<close>, \<^verbatim>\<open>Mix_OpenAudio\<close>,
  \<^verbatim>\<open>IMG_Init\<close>, \<^verbatim>\<open>TTF_Init\<close>), logged whether or not it succeeds; \<open>Shutdown\<close> is
  \<^verbatim>\<open>SDL_Quit\<close>, \<^verbatim>\<open>Mix_Quit\<close>, \<^verbatim>\<open>IMG_Quit\<close>, \<^verbatim>\<open>TTF_Quit\<close>. \<open>Acquire r\<close> is logged when
  the creating or loading call returned a handle that is not null, \<open>Release r\<close> when the
  handle is destroyed. \<open>Undefined\<close> marks a step whose behaviour C++ leaves undefined.
\<close>

datatype call =
    Init subsystem
  | Shutdown subsystem
  | Acquire resource
  | Release resource
  | Print string
  | RenderClear
  | RenderCopy resource "SDL_Texture option" "SDL_Rect option" SDL_Rect
  | RenderPresent
  | PlayMusic int
  | PauseMusic
  | ResumeMusic
  | HaltMusic
  | Undefined

section \<open>Helpers of main.cpp\<close>

text \<open>\<^verbatim>\<open>quitAll\<close>, lines 23-29.\<close>

definition quitAll :: "call list" where
  "quitAll = [Shutdown SDL_mixer, Shutdown SDL_image, Shutdown SDL_ttf, Shutdown SDL]"

text \<open>\<^verbatim>\<open>printError\<close>, lines 37-40: the message text comes from the library and is left out.\<close>

definition printError :: "string \<Rightarrow> call list" where
  "printError function = [Print function]"

text \<open>
  Modelled from the spec: \<^verbatim>\<open>cleanup\<close> of \<^verbatim>\<open>include/cleanup.h\<close>, which is not among the
  sources. The spec only says that handles are released; here every handle that is not
  null is released once, in the order of the arguments.
\<close>

fun cleanup :: "resource option list \<Rightarrow> call list" where
  "cleanup [] = []"
| "cleanup (None # hs) = cleanup hs"
| "cleanup (Some r # hs) = Release r # cleanup hs"

text \<open>
  \<^verbatim>\<open>renderTexture\<close>, destination form, lines 78-83: one \<^verbatim>\<open>SDL_RenderCopy\<close>.
\<close>

definition renderTexture :: "SDL_Texture option \<Rightarrow> resource \<Rightarrow> SDL_Rect \<Rightarrow> SDL_Rect option \<Rightarrow> call list" where
  "renderTexture tex ren dst clip = [RenderCopy ren tex clip dst]"

text \<open>
  \<^verbatim>\<open>SDL_QueryTexture(tex, NULL, NULL, &w, &h)\<close>: the native size, or an error that leaves
  the two output variables unwritten when the texture pointer is null.
\<close>

definition SDL_QueryTexture :: "SDL_Texture option \<Rightarrow> (int \<times> int) option" where
  "SDL_QueryTexture tex = (case tex of None \<Rightarrow> None | Some t \<Rightarrow> Some (tex_w t, tex_h t))"

text \<open>
  \<^verbatim>\<open>renderTexture\<close>, position form, lines 97-112. With no clip and a null texture the
  query fails, \<^verbatim>\<open>dest.w\<close> and \<^verbatim>\<open>dest.h\<close> stay uninitialised and are then read.
\<close>

definition renderTexture_xy :: "SDL_Texture option \<Rightarrow> resource \<Rightarrow> int \<Rightarrow> int \<Rightarrow> SDL_Rect option \<Rightarrow> call list" where
  "renderTexture_xy tex ren x y clip =
     (case clip of
        Some c \<Rightarrow>
          renderTexture tex ren \<lparr>rect_x = x, rect_y = y, rect_w = rect_w c, rect_h = rect_h c\<rparr> clip
      | None \<Rightarrow>
          (case SDL_QueryTexture tex of
             Some (qw, qh) \<Rightarrow>
               renderTexture tex ren \<lparr>rect_x = x, rect_y = y, rect_w = qw, rect_h = qh\<rparr> clip
           | None \<Rightarrow> [Undefined]))"

section \<open>The event loop\<close>

datatype SDL_Keycode =
    SDLK_1 | SDLK_KP_1 | SDLK_2 | SDLK_KP_2 | SDLK_3 | SDLK_KP_3 | SDLK_4 | SDLK_KP_4
  | SDLK_UP | SDLK_w | SDLK_DOWN | SDLK_s | SDLK_LEFT | SDLK_a | SDLK_RIGHT | SDLK_d
  | SDLK_m | SDLK_q | SDLK_ESCAPE
  | SDLK_other nat

datatype SDL_EventType = SDL_QUIT | SDL_KEYDOWN | SDL_other_event nat

record SDL_Event =
  ev_type :: SDL_EventType
  ev_sym :: SDL_Keycode

text \<open>
  The mixer's music channel, as SDL\_mixer documents it: \<^verbatim>\<open>Mix_PlayingMusic\<close> is 1 for a
  started track, paused or not, and 0 once it is halted; \<^verbatim>\<open>Mix_PausedMusic\<close> is 1 for a
  paused one. \<^verbatim>\<open>Mix_PlayMusic\<close> returns 0 when the track starts and -1 on an error,
  which leaves a silent channel stopped; the program discards the result at both of its
  calls. A track started with \<open>loops = -1\<close> never ends by itself.
\<close>

datatype music_state = Stopped | Playing | Paused

record state =
  iX :: int
  iY :: int
  useClip :: int
  quit :: bool
  music :: music_state
  trace :: "call list"

definition Mix_PlayingMusic :: "state \<Rightarrow> int" where
  "Mix_PlayingMusic s = (if music s = Stopped then 0 else 1)"

definition Mix_PausedMusic :: "state \<Rightarrow> int" where
  "Mix_PausedMusic s = (if music s = Paused then 1 else 0)"

definition Mix_PlayMusic :: "int \<Rightarrow> state \<Rightarrow> state" where
  "Mix_PlayMusic loops s = s\<lparr>music := Playing, trace := trace s @ [PlayMusic loops]\<rparr>"

text \<open>
  \<^verbatim>\<open>Mix_PlayMusic\<close> above is the call that starts the track. \<open>Mix_PlayMusic_with r\<close> is
  the call whose result is \<open>r\<close>: when \<open>r\<close> is not 0 the call is made and nothing starts.
  The start at line 251 has the result the environment gives; the start in the handler of
  the M key (line 311) is taken to succeed.
\<close>

definition Mix_PlayMusic_with :: "int \<Rightarrow> int \<Rightarrow> state \<Rightarrow> state" where
  "Mix_PlayMusic_with r loops s =
     (if r = 0 then Mix_PlayMusic loops s else s\<lparr>trace := trace s @ [PlayMusic loops]\<rparr>)"

definition Mix_ResumeMusic :: "state \<Rightarrow> state" where
  "Mix_ResumeMusic s =
     s\<lparr>music := (if music s = Paused then Playing else music s), trace := trace s @ [ResumeMusic]\<rparr>"

definition Mix_PauseMusic :: "state \<Rightarrow> state" where
  "Mix_PauseMusic s =
     s\<lparr>music := (if music s = Playing then Paused else music s), trace := trace s @ [PauseMusic]\<rparr>"

definition Mix_HaltMusic :: "state \<Rightarrow> state" where
  "Mix_HaltMusic s = s\<lparr>music := Stopped, trace := trace s @ [HaltMusic]\<rparr>"

text \<open>The bodies of the \<^verbatim>\<open>switch\<close> cases, lines 280-319.\<close>

definition move_up :: "state \<Rightarrow> state" where
  "move_up s =
     (let s1 = (if iY s \<ge> 0 then s\<lparr>iY := iY s - yVel\<rparr> else s)
      in if iY s1 < 0 then s1\<lparr>iY := 0\<rparr> else s1)"

definition move_down :: "state \<Rightarrow> state" where
  "move_down s =
     (let s1 = (if iY s + iH \<le> SCREEN_HEIGHT then s\<lparr>iY := iY s + yVel\<rparr> else s)
      in if iY s1 + iH > SCREEN_HEIGHT then s1\<lparr>iY := SCREEN_HEIGHT - iH\<rparr> else s1)"

definition move_left :: "state \<Rightarrow> state" where
  "move_left s =
     (let s1 = (if iX s \<ge> 0 then s\<lparr>iX := iX s - xVel\<rparr> else s)
      in if iX s1 < 0 then s1\<lparr>iX := 0\<rparr> else s1)"

definition move_right :: "state \<Rightarrow> state" where
  "move_right s =
     (let s1 = (if iX s + iW \<le> SCREEN_WIDTH then s\<lparr>iX := iX s + xVel\<rparr> else s)
      in if iX s1 + iW > SCREEN_WIDTH then s1\<lparr>iX := SCREEN_WIDTH - iW\<rparr> else s1)"

definition audio_control :: "state \<Rightarrow> state" where
  "audio_control s =
     (if Mix_PlayingMusic s = 0 then Mix_PlayMusic (- 1) s
      else if Mix_PausedMusic s = 1 then Mix_ResumeMusic s
      else Mix_PauseMusic s)"

text \<open>The \<^verbatim>\<open>switch\<close> on the key, lines 261-327.\<close>

fun key_down :: "SDL_Keycode \<Rightarrow> state \<Rightarrow> state" where
  "key_down SDLK_1 s = s\<lparr>useClip := 0\<rparr>"
| "key_down SDLK_KP_1 s = s\<lparr>useClip := 0\<rparr>"
| "key_down SDLK_2 s = s\<lparr>useClip := 1\<rparr>"
| "key_down SDLK_KP_2 s = s\<lparr>useClip := 1\<rparr>"
| "key_down SDLK_3 s = s\<lparr>useClip := 2\<rparr>"
| "key_down SDLK_KP_3 s = s\<lparr>useClip := 2\<rparr>"
| "key_down SDLK_4 s = s\<lparr>useClip := 3\<rparr>"
| "key_down SDLK_KP_4 s = s\<lparr>useClip := 3\<rparr>"
| "key_down SDLK_UP s = move_up s"
| "key_down SDLK_w s = move_up s"
| "key_down SDLK_DOWN s = move_down s"
| "key_down SDLK_s s = move_down s"
| "key_down SDLK_LEFT s = move_left s"
| "key_down SDLK_a s = move_left s"
| "key_down SDLK_RIGHT s = move_right s"
| "key_down SDLK_d s = move_right s"
| "key_down SDLK_m s = audio_control s"
| "key_down SDLK_q s = s\<lparr>quit := True\<rparr>"
| "key_down SDLK_ESCAPE s = s\<lparr>quit := True\<rparr>"
| "key_down (SDLK_other k) s = s"

text \<open>The body of the inner \<^verbatim>\<open>while\<close>, lines 257-328: two \<^verbatim>\<open>if\<close>s in sequence.\<close>

definition handle_event :: "SDL_Event \<Rightarrow> state \<Rightarrow> state" where
  "handle_event e s =
     (let s1 = (if ev_type e = SDL_QUIT then s\<lparr>quit := True\<rparr> else s)
      in if ev_type e = SDL_KEYDOWN then key_down (ev_sym e) s1 else s1)"

text \<open>
  The inner \<^verbatim>\<open>while (SDL_PollEvent(&e))\<close>: the list is what the event queue holds when
  the loop drains it.
\<close>

fun poll_events :: "SDL_Event list \<Rightarrow> state \<Rightarrow> state" where
  "poll_events [] s = s"
| "poll_events (e # es) s = poll_events es (handle_event e s)"

text \<open>What the frame is drawn from: the two textures, the clips and the text's position.\<close>

record scene =
  sc_image :: SDL_Texture
  sc_text :: SDL_Texture
  sc_clips :: "SDL_Rect list"
  sc_tX :: int
  sc_tY :: int

text \<open>
  Lines 331-334. \<^verbatim>\<open>&clips[useClip]\<close> with an index outside the array is undefined
  behaviour in C++.
\<close>

definition render :: "scene \<Rightarrow> state \<Rightarrow> state" where
  "render sc s =
     s\<lparr>trace := trace s
        @ [RenderClear]
        @ (if 0 \<le> useClip s \<and> useClip s < int (length (sc_clips sc))
           then renderTexture_xy (Some (sc_image sc)) Renderer (iX s) (iY s)
                  (Some (sc_clips sc ! nat (useClip s)))
           else [Undefined])
        @ renderTexture_xy (Some (sc_text sc)) Renderer (sc_tX sc) (sc_tY sc) None
        @ [RenderPresent]\<rparr>"

text \<open>
  The outer \<^verbatim>\<open>while (!quit)\<close>, lines 255-335. Each element of the list is the content of
  the event queue at one iteration. The loop leaves when \<open>quit\<close> holds at its head; when
  the input ends first the program is still running, and the state returned has
  \<open>quit = False\<close>.
\<close>

fun main_loop :: "scene \<Rightarrow> SDL_Event list list \<Rightarrow> state \<Rightarrow> state" where
  "main_loop sc [] s = s"
| "main_loop sc (b # bs) s =
     (if quit s then s else main_loop sc bs (render sc (poll_events b s)))"

section \<open>Startup and shutdown: main\<close>

text \<open>
  What the libraries answer during startup, and to the start of the music at line 251.
  The three paths that \<^verbatim>\<open>getResourcePath\<close>
  (\<^verbatim>\<open>include/res_path.h\<close>) builds only name the files to load; whether a load succeeds
  is part of the environment.
\<close>

record env =
  SDL_Init_ret :: int
  Mix_OpenAudio_ret :: int
  IMG_Init_ret :: int
  TTF_Init_ret :: int
  SDL_CreateWindow_ok :: bool
  SDL_CreateRenderer_ok :: bool
  TTF_OpenFont_ok :: bool
  TTF_RenderText_ok :: bool
  SDL_CreateTextureFromSurface_ret :: "(int \<times> int) option"
  IMG_LoadTexture_ret :: "(int \<times> int) option"
  Mix_LoadMUS_ok :: bool
  Mix_PlayMusic_ret :: int

text \<open>\<^verbatim>\<open>loadTexture\<close>, lines 48-54.\<close>

definition loadTexture :: "env \<Rightarrow> SDL_Texture option \<times> call list" where
  "loadTexture env =
     (case IMG_LoadTexture_ret env of
        None \<Rightarrow> (None, printError ''LoadTexture'')
      | Some (lw, lh) \<Rightarrow> (Some \<lparr>tex_res = Image, tex_w = lw, tex_h = lh\<rparr>, [Acquire Image]))"

text \<open>\<^verbatim>\<open>loadMusic\<close>, lines 61-67.\<close>

definition loadMusic :: "env \<Rightarrow> resource option \<times> call list" where
  "loadMusic env =
     (if Mix_LoadMUS_ok env then (Some Song, [Acquire Song])
      else (None, printError ''Mix_LoadMUS''))"

text \<open>\<^verbatim>\<open>renderText\<close>, lines 124-140: the surface is released on both paths that made one.\<close>

definition renderText :: "env \<Rightarrow> SDL_Texture option \<times> call list" where
  "renderText env =
     (if \<not> TTF_RenderText_ok env then (None, printError ''TTF_RenderText'')
      else
        (case SDL_CreateTextureFromSurface_ret env of
           None \<Rightarrow>
             (None, [Acquire Surface] @ printError ''SDL_CreateTexture'' @ cleanup [Some Surface])
         | Some (cw, ch) \<Rightarrow>
             (Some \<lparr>tex_res = Text, tex_w = cw, tex_h = ch\<rparr>,
              [Acquire Surface, Acquire Text] @ cleanup [Some Surface])))"

text \<open>The pointer a texture variable holds, as \<^verbatim>\<open>cleanup\<close> receives it.\<close>

definition handle_of :: "SDL_Texture option \<Rightarrow> resource option" where
  "handle_of tex = (case tex of None \<Rightarrow> None | Some t \<Rightarrow> Some (tex_res t))"

text \<open>
  Lines 149-223 of \<^verbatim>\<open>main\<close>: the calls made, and the text and image textures when every
  step succeeded; \<open>None\<close> stands for \<^verbatim>\<open>return 1\<close>.
\<close>

definition startup :: "env \<Rightarrow> call list \<times> (SDL_Texture \<times> SDL_Texture) option" where
  "startup env =
     (if SDL_Init_ret env \<noteq> 0 then ([Init SDL] @ printError ''SDL_Init'', None)
      else if Mix_OpenAudio_ret env < 0 then
        ([Init SDL, Init SDL_mixer] @ printError ''Mix_OpenAudio'' @ quitAll, None)
      else if (IMG_Init_ret env AND IMG_INIT_PNG) \<noteq> IMG_INIT_PNG then
        ([Init SDL, Init SDL_mixer, Init SDL_image] @ printError ''IMG_Init'' @ quitAll, None)
      else if TTF_Init_ret env \<noteq> 0 then
        ([Init SDL, Init SDL_mixer, Init SDL_image, Init SDL_ttf]
           @ printError ''TTF_Init'' @ quitAll, None)
      else
        let t4 = [Init SDL, Init SDL_mixer, Init SDL_image, Init SDL_ttf] in
        if \<not> SDL_CreateWindow_ok env then
          (t4 @ printError ''SDL_CreateWindow'' @ quitAll, None)
        else if \<not> SDL_CreateRenderer_ok env then
          (t4 @ [Acquire Window] @ cleanup [Some Window]
             @ printError ''SDL_CreateRenderer'' @ quitAll, None)
        else if \<not> TTF_OpenFont_ok env then
          (t4 @ [Acquire Window, Acquire Renderer] @ cleanup [Some Renderer, Some Window]
             @ printError ''TTF_OpenFont'' @ quitAll, None)
        else
          let (txt, t_txt) = renderText env;
              (image, t_img) = loadTexture env;
              t7 = t4 @ [Acquire Window, Acquire Renderer, Acquire Font] @ t_txt @ t_img
          in
          (case (image, txt) of
             (Some img, Some tx) \<Rightarrow>
               (let (song, t_song) = loadMusic env in
                if song = None then
                  (t7 @ t_song
                     @ cleanup [song, Some Font, handle_of image, handle_of txt,
                                Some Renderer, Some Window]
                     @ quitAll, None)
                else (t7 @ t_song, Some (tx, img)))
           | _ \<Rightarrow>
               (t7 @ cleanup [Some Font, handle_of image, handle_of txt, Some Renderer, Some Window]
                  @ quitAll, None)))"

text \<open>
  The clip table, lines 232-240. The array starts uninitialised; the loop writes each of
  its four elements (lemma \<open>setup_clips_any\<close>).
\<close>

function setup_clips :: "int \<Rightarrow> SDL_Rect list \<Rightarrow> SDL_Rect list" where
  "setup_clips i clips =
     (if i < 4 then
        setup_clips (i + 1)
          (clips[nat i := \<lparr>rect_x = i sdiv 2 * iW, rect_y = i smod 2 * iH,
                            rect_w = iW, rect_h = iH\<rparr>])
      else clips)"
  by pat_completeness auto
termination
  by (relation "measure (\<lambda>(i, clips). nat (4 - i))") auto

declare setup_clips.simps [simp del]

definition no_rect :: SDL_Rect where
  "no_rect = \<lparr>rect_x = 0, rect_y = 0, rect_w = 0, rect_h = 0\<rparr>"

text \<open>
  Lines 225-248: what the frames are drawn from. The query of the text texture cannot fail
  here, the texture being non-null after line 210; the second branch is never taken.
\<close>

definition make_scene :: "SDL_Texture \<Rightarrow> SDL_Texture \<Rightarrow> scene" where
  "make_scene tx img =
     (case SDL_QueryTexture (Some tx) of
        Some (tW, tH) \<Rightarrow>
          \<lparr>sc_image = img, sc_text = tx,
           sc_clips = setup_clips 0 (replicate 4 no_rect),
           sc_tX = SCREEN_WIDTH sdiv 2 - tW sdiv 2,
           sc_tY = SCREEN_HEIGHT sdiv 2 - tH sdiv 2\<rparr>
      | None \<Rightarrow>
          \<lparr>sc_image = img, sc_text = tx, sc_clips = setup_clips 0 (replicate 4 no_rect),
           sc_tX = 0, sc_tY = 0\<rparr>)"

text \<open>
  The state in which the event loop is entered (lines 227-229, 242, 251, 254), after the
  calls \<open>t\<close> of startup, when the result of \<^verbatim>\<open>Mix_PlayMusic(song, -1)\<close> at line 251 is
  \<open>r\<close>.
\<close>

definition loop_entry :: "int \<Rightarrow> call list \<Rightarrow> state" where
  "loop_entry r t =
     Mix_PlayMusic_with r (- 1)
       \<lparr>iX = SCREEN_WIDTH sdiv 2 - iW sdiv 2, iY = SCREEN_HEIGHT sdiv 2 - iH sdiv 2,
        useClip = 0, quit = False, music = Stopped, trace = t\<rparr>"

text \<open>
  The result of a run: every call made, and the exit status, \<open>None\<close> while the program
  is still in its event loop at the end of the input.
\<close>

record outcome =
  calls :: "call list"
  exit_status :: "int option"

definition main :: "env \<Rightarrow> SDL_Event list list \<Rightarrow> outcome" where
  "main env evs =
     (case startup env of
        (t, None) \<Rightarrow> \<lparr>calls = t, exit_status = Some 1\<rparr>
      | (t, Some (tx, img)) \<Rightarrow>
          (let s = main_loop (make_scene tx img) evs (loop_entry (Mix_PlayMusic_ret env) t) in
           if quit s then
             \<lparr>calls = trace (Mix_HaltMusic s)
                 @ cleanup [Some Song, Some Font, Some Image, Some Renderer, Some Window]
                 @ quitAll,
              exit_status = Some 0\<rparr>
           else \<lparr>calls = trace s, exit_status = None\<rparr>))"

text \<open>
  The states the event loop can be in: entered after startup, whatever the result of the
  start of the music, then any event handled or any frame drawn.
\<close>

inductive reachable :: "scene \<Rightarrow> call list \<Rightarrow> state \<Rightarrow> bool" for sc :: scene and t :: "call list" where
  entry: "reachable sc t (loop_entry r t)"
| event: "reachable sc t s \<Longrightarrow> reachable sc t (handle_event e s)"
| frame: "reachable sc t s \<Longrightarrow> reachable sc t (render sc s)"

text \<open>A key-down event for a key.\<close>

definition KeyDown :: "SDL_Keycode \<Rightarrow> SDL_Event" where
  "KeyDown k = \<lparr>ev_type = SDL_KEYDOWN, ev_sym = k\<rparr>"

text \<open>A window-close event or a Q/Escape key-down.\<close>

definition is_quit_event :: "SDL_Event \<Rightarrow> bool" where
  "is_quit_event e =
     (ev_type e = SDL_QUIT \<or>
      (ev_type e = SDL_KEYDOWN \<and> (ev_sym e = SDLK_q \<or> ev_sym e = SDLK_ESCAPE)))"

text \<open>An M key-down.\<close>

definition is_m_down :: "SDL_Event \<Rightarrow> bool" where
  "is_m_down e = (ev_type e = SDL_KEYDOWN \<and> ev_sym e = SDLK_m)"

section \<open>Reading the log\<close>

fun inits :: "call list \<Rightarrow> subsystem list" where
  "inits [] = []"
| "inits (Init u # cs) = u # inits cs"
| "inits (c # cs) = inits cs"

fun shutdowns :: "call list \<Rightarrow> subsystem list" where
  "shutdowns [] = []"
| "shutdowns (Shutdown u # cs) = u # shutdowns cs"
| "shutdowns (c # cs) = shutdowns cs"

fun acquired :: "call list \<Rightarrow> resource list" where
  "acquired [] = []"
| "acquired (Acquire r # cs) = r # acquired cs"
| "acquired (c # cs) = acquired cs"

fun released :: "call list \<Rightarrow> resource list" where
  "released [] = []"
| "released (Release r # cs) = r # released cs"
| "released (c # cs) = released cs"

text \<open>The handles that are open after the calls, starting from the open handles \<open>hs\<close>.\<close>

fun open_after :: "resource list \<Rightarrow> call list \<Rightarrow> resource list" where
  "open_after hs [] = hs"
| "open_after hs (Acquire r # cs) = open_after (hs @ [r]) cs"
| "open_after hs (Release r # cs) = open_after (removeAll r hs) cs"
| "open_after hs (c # cs) = open_after hs cs"

text \<open>The calls of one frame: clear, blits, present.\<close>

fun is_render_call :: "call \<Rightarrow> bool" where
  "is_render_call RenderClear = True"
| "is_render_call (RenderCopy ren tex clip dst) = True"
| "is_render_call RenderPresent = True"
| "is_render_call c = False"

text \<open>Some step of startup fails: the conditions of lines 150-219, in order.\<close>

definition startup_fails :: "env \<Rightarrow> bool" where
  "startup_fails env =
     (SDL_Init_ret env \<noteq> 0 \<or> Mix_OpenAudio_ret env < 0 \<or>
      (IMG_Init_ret env AND IMG_INIT_PNG) \<noteq> IMG_INIT_PNG \<or> TTF_Init_ret env \<noteq> 0 \<or>
      \<not> SDL_CreateWindow_ok env \<or> \<not> SDL_CreateRenderer_ok env \<or> \<not> TTF_OpenFont_ok env \<or>
      \<not> TTF_RenderText_ok env \<or> SDL_CreateTextureFromSurface_ret env = None \<or>
      IMG_LoadTexture_ret env = None \<or> \<not> Mix_LoadMUS_ok env)"

text \<open>
  The components of the loop's state, and for each key the one its key-down is meant to
  change. \<open>changes_only c s s'\<close>: going from \<open>s\<close> to \<open>s'\<close> leaves every component but
  \<open>c\<close> as it was. A mixer call is also written to the log.
\<close>

datatype component = Clip_index | Position_x | Position_y | Music_state | Quit_flag | No_component

fun designated :: "SDL_Keycode \<Rightarrow> component" where
  "designated SDLK_1 = Clip_index"
| "designated SDLK_KP_1 = Clip_index"
| "designated SDLK_2 = Clip_index"
| "designated SDLK_KP_2 = Clip_index"
| "designated SDLK_3 = Clip_index"
| "designated SDLK_KP_3 = Clip_index"
| "designated SDLK_4 = Clip_index"
| "designated SDLK_KP_4 = Clip_index"
| "designated SDLK_UP = Position_y"
| "designated SDLK_w = Position_y"
| "designated SDLK_DOWN = Position_y"
| "designated SDLK_s = Position_y"
| "designated SDLK_LEFT = Position_x"
| "designated SDLK_a = Position_x"
| "designated SDLK_RIGHT = Position_x"
| "designated SDLK_d = Position_x"
| "designated SDLK_m = Music_state"
| "designated SDLK_q = Quit_flag"
| "designated SDLK_ESCAPE = Quit_flag"
| "designated (SDLK_other k) = No_component"

fun changes_only :: "component \<Rightarrow> state \<Rightarrow> state \<Rightarrow> bool" where
  "changes_only Clip_index s s' = (s' = s\<lparr>useClip := useClip s'\<rparr>)"
| "changes_only Position_x s s' = (s' = s\<lparr>iX := iX s'\<rparr>)"
| "changes_only Position_y s s' = (s' = s\<lparr>iY := iY s'\<rparr>)"
| "changes_only Music_state s s' = (s' = s\<lparr>music := music s', trace := trace s'\<rparr>)"
| "changes_only Quit_flag s s' = (s' = s\<lparr>quit := quit s'\<rparr>)"
| "changes_only No_component s s' = (s' = s)"

text \<open>The calls the event loop makes: the frame's and the mixer's.\<close>

fun loop_call :: "call \<Rightarrow> bool" where
  "loop_call RenderClear = True"
| "loop_call (RenderCopy ren tex clip dst) = True"
| "loop_call RenderPresent = True"
| "loop_call (PlayMusic loops) = True"
| "loop_call PauseMusic = True"
| "loop_call ResumeMusic = True"
| "loop_call Undefined = True"
| "loop_call c = False"

section \<open>Concrete inputs\<close>

definition text_200x150 :: SDL_Texture where
  "text_200x150 = \<lparr>tex_res = Text, tex_w = 200, tex_h = 150\<rparr>"

definition image_200x200 :: SDL_Texture where
  "image_200x200 = \<lparr>tex_res = Image, tex_w = 200, tex_h = 200\<rparr>"

definition scene_200 :: scene where
  "scene_200 = make_scene text_200x150 image_200x200"

definition env_ok :: env where
  "env_ok =
     \<lparr>SDL_Init_ret = 0, Mix_OpenAudio_ret = 0, IMG_Init_ret = 2, TTF_Init_ret = 0,
      SDL_CreateWindow_ok = True, SDL_CreateRenderer_ok = True, TTF_OpenFont_ok = True,
      TTF_RenderText_ok = True, SDL_CreateTextureFromSurface_ret = Some (200, 150),
      IMG_LoadTexture_ret = Some (200, 200), Mix_LoadMUS_ok = True,
      Mix_PlayMusic_ret = 0\<rparr>"

definition env_no_image :: env where
  "env_no_image = env_ok\<lparr>IMG_LoadTexture_ret := None\<rparr>"

definition env_no_song :: env where
  "env_no_song = env_ok\<lparr>Mix_LoadMUS_ok := False\<rparr>"

definition env_no_play :: env where
  "env_no_play = env_ok\<lparr>Mix_PlayMusic_ret := - 1\<rparr>"

definition window_close :: SDL_Event where
  "window_close = \<lparr>ev_type = SDL_QUIT, ev_sym = SDLK_other 0\<rparr>"

section \<open>Basic facts\<close>

lemmas consts_defs = SCREEN_WIDTH_def SCREEN_HEIGHT_def xVel_def yVel_def iW_def iH_def

lemma move_up_clamp: "move_up s = s\<lparr>iY := max 0 (iY s - 10)\<rparr>"
  by (simp add: move_up_def yVel_def Let_def max_def)

lemma move_down_clamp: "move_down s = s\<lparr>iY := min 764 (iY s + 10)\<rparr>"
  by (simp add: move_down_def consts_defs Let_def min_def)

lemma move_left_clamp: "move_left s = s\<lparr>iX := max 0 (iX s - 10)\<rparr>"
  by (simp add: move_left_def consts_defs Let_def max_def)

lemma move_right_clamp: "move_right s = s\<lparr>iX := min 632 (iX s + 10)\<rparr>"
  by (simp add: move_right_def consts_defs Let_def min_def)

lemma audio_control_cases:
  "audio_control s =
     (case music s of
        Stopped \<Rightarrow> s\<lparr>music := Playing, trace := trace s @ [PlayMusic (- 1)]\<rparr>
      | Playing \<Rightarrow> s\<lparr>music := Paused, trace := trace s @ [PauseMusic]\<rparr>
      | Paused \<Rightarrow> s\<lparr>music := Playing, trace := trace s @ [ResumeMusic]\<rparr>)"
  by (simp add: audio_control_def Mix_PlayingMusic_def Mix_PausedMusic_def Mix_PlayMusic_def
      Mix_ResumeMusic_def Mix_PauseMusic_def split: music_state.splits)

lemmas key_effects =
  move_up_clamp move_down_clamp move_left_clamp move_right_clamp audio_control_cases

lemma handle_KeyDown: "handle_event (KeyDown k) s = key_down k s"
  by (simp add: handle_event_def KeyDown_def)

lemma handle_event_cases:
  "handle_event e s =
     (if ev_type e = SDL_QUIT then s\<lparr>quit := True\<rparr>
      else if ev_type e = SDL_KEYDOWN then key_down (ev_sym e) s else s)"
  by (simp add: handle_event_def Let_def)

lemma loop_entry_fields:
  "iX (loop_entry r t) = 316" "iY (loop_entry r t) = 382" "useClip (loop_entry r t) = 0"
  "quit (loop_entry r t) = False"
  "music (loop_entry r t) = (if r = 0 then Playing else Stopped)"
  "trace (loop_entry r t) = t @ [PlayMusic (- 1)]"
  by (simp_all add: loop_entry_def Mix_PlayMusic_with_def Mix_PlayMusic_def consts_defs
      signed_divide_int_def)

lemma render_fields:
  "iX (render sc s) = iX s" "iY (render sc s) = iY s" "useClip (render sc s) = useClip s"
  "quit (render sc s) = quit s" "music (render sc s) = music s"
  by (simp_all add: render_def)

subsection \<open>Every state of a run is reachable\<close>

lemma reachable_poll_events:
  "reachable sc t s \<Longrightarrow> reachable sc t (poll_events es s)"
  by (induction es arbitrary: s) (auto intro: reachable.event)

lemma reachable_main_loop:
  "reachable sc t s \<Longrightarrow> reachable sc t (main_loop sc evs s)"
  by (induction evs arbitrary: s) (auto intro: reachable.frame reachable_poll_events)

subsection \<open>Position and clip index\<close>

lemma key_down_bounds:
  "0 \<le> iX s \<and> iX s \<le> 632 \<and> 0 \<le> iY s \<and> iY s \<le> 764 \<Longrightarrow>
   0 \<le> iX (key_down k s) \<and> iX (key_down k s) \<le> 632 \<and>
   0 \<le> iY (key_down k s) \<and> iY (key_down k s) \<le> 764"
  by (cases k) (simp_all add: key_effects split: music_state.splits)

lemma handle_event_bounds:
  "0 \<le> iX s \<and> iX s \<le> 632 \<and> 0 \<le> iY s \<and> iY s \<le> 764 \<Longrightarrow>
   0 \<le> iX (handle_event e s) \<and> iX (handle_event e s) \<le> 632 \<and>
   0 \<le> iY (handle_event e s) \<and> iY (handle_event e s) \<le> 764"
  using key_down_bounds [of s "ev_sym e"] by (simp add: handle_event_cases)

lemma position_reachable:
  assumes "reachable sc t s"
  shows "0 \<le> iX s \<and> iX s \<le> 632 \<and> 0 \<le> iY s \<and> iY s \<le> 764"
  using assms
proof (induction rule: reachable.induct)
  case (entry r)
  show ?case by (simp add: loop_entry_fields)
next
  case (event s e)
  from event.IH show ?case by (rule handle_event_bounds)
next
  case (frame s)
  then show ?case by (simp add: render_fields)
qed

text \<open>
  With the position in these bounds, the sums and differences the four movement cases
  compute are far inside the range of a 32-bit \<^verbatim>\<open>int\<close>.
\<close>

lemma reachable_no_overflow:
  assumes "reachable sc t s"
  shows "- (2 ^ 31) \<le> iX s - xVel \<and> iX s + iW + xVel < 2 ^ 31 \<and>
         - (2 ^ 31) \<le> iY s - yVel \<and> iY s + iH + yVel < 2 ^ 31"
  using position_reachable [OF assms] by (simp add: consts_defs)

lemma clip_index_reachable:
  assumes "reachable sc t s"
  shows "useClip s \<in> {0, 1, 2, 3}"
  using assms
proof (induction rule: reachable.induct)
  case (entry r)
  show ?case by (simp add: loop_entry_fields)
next
  case (event s e)
  have "useClip (key_down k s) \<in> {0, 1, 2, 3}" for k
    using event.IH by (cases k) (simp_all add: key_effects split: music_state.splits)
  with event.IH show ?case by (simp add: handle_event_cases)
next
  case (frame s)
  then show ?case by (simp add: render_fields)
qed

subsection \<open>The clip table and the frame\<close>

lemma setup_clips_any:
  assumes "length cs = 4"
  shows "setup_clips 0 cs =
     [\<lparr>rect_x = 0, rect_y = 0, rect_w = 100, rect_h = 100\<rparr>,
      \<lparr>rect_x = 0, rect_y = 100, rect_w = 100, rect_h = 100\<rparr>,
      \<lparr>rect_x = 100, rect_y = 0, rect_w = 100, rect_h = 100\<rparr>,
      \<lparr>rect_x = 100, rect_y = 100, rect_w = 100, rect_h = 100\<rparr>]"
proof -
  from assms obtain a b c d where cs: "cs = [a, b, c, d]"
    by (auto simp: length_Suc_conv eval_nat_numeral)
  show ?thesis
    unfolding cs
    by (simp add: setup_clips.simps [of 0] setup_clips.simps [of 1] setup_clips.simps [of 2]
        setup_clips.simps [of 3] setup_clips.simps [of 4] iW_def iH_def
        signed_divide_int_def signed_modulo_int_def eval_nat_numeral)
qed

lemma make_scene_fields:
  "sc_image (make_scene tx img) = img" "sc_text (make_scene tx img) = tx"
  "sc_clips (make_scene tx img) = setup_clips 0 (replicate 4 no_rect)"
  "sc_tX (make_scene tx img) = SCREEN_WIDTH sdiv 2 - tex_w tx sdiv 2"
  "sc_tY (make_scene tx img) = SCREEN_HEIGHT sdiv 2 - tex_h tx sdiv 2"
  by (simp_all add: make_scene_def SDL_QueryTexture_def)

lemma clips_of_main:
  "sc_clips (make_scene tx img) =
     [\<lparr>rect_x = 0, rect_y = 0, rect_w = 100, rect_h = 100\<rparr>,
      \<lparr>rect_x = 0, rect_y = 100, rect_w = 100, rect_h = 100\<rparr>,
      \<lparr>rect_x = 100, rect_y = 0, rect_w = 100, rect_h = 100\<rparr>,
      \<lparr>rect_x = 100, rect_y = 100, rect_w = 100, rect_h = 100\<rparr>]"
  by (simp add: make_scene_fields setup_clips_any)

lemma clip_selected:
  assumes "i \<in> {0, 1, 2, 3}"
  shows "sc_clips (make_scene tx img) ! nat i =
           \<lparr>rect_x = i sdiv 2 * 100, rect_y = i smod 2 * 100, rect_w = 100, rect_h = 100\<rparr>"
  using assms
  by (auto simp: clips_of_main signed_divide_int_def signed_modulo_int_def eval_nat_numeral)

lemma render_frame:
  assumes "useClip s \<in> {0, 1, 2, 3}"
  shows "trace (render (make_scene tx img) s) = trace s @
           [RenderClear,
            RenderCopy Renderer (Some img)
              (Some \<lparr>rect_x = useClip s sdiv 2 * 100, rect_y = useClip s smod 2 * 100,
                     rect_w = 100, rect_h = 100\<rparr>)
              \<lparr>rect_x = iX s, rect_y = iY s, rect_w = 100, rect_h = 100\<rparr>,
            RenderCopy Renderer (Some tx) None
              \<lparr>rect_x = SCREEN_WIDTH sdiv 2 - tex_w tx sdiv 2,
               rect_y = SCREEN_HEIGHT sdiv 2 - tex_h tx sdiv 2,
               rect_w = tex_w tx, rect_h = tex_h tx\<rparr>,
            RenderPresent]"
proof -
  have len: "length (sc_clips (make_scene tx img)) = 4"
    by (simp add: clips_of_main)
  have rng: "0 \<le> useClip s \<and> useClip s < 4"
    using assms by auto
  show ?thesis
    using rng
    by (simp add: render_def len clip_selected [OF assms] renderTexture_xy_def renderTexture_def
        SDL_QueryTexture_def make_scene_fields(1,2,4,5))
qed

lemma frame_200:
  assumes "useClip s = 0"
  shows "trace (render (make_scene text_200x150 image_200x200) s) = trace s @
     [RenderClear,
      RenderCopy Renderer (Some image_200x200)
        (Some \<lparr>rect_x = 0, rect_y = 0, rect_w = 100, rect_h = 100\<rparr>)
        \<lparr>rect_x = iX s, rect_y = iY s, rect_w = 100, rect_h = 100\<rparr>,
      RenderCopy Renderer (Some text_200x150) None
        \<lparr>rect_x = 266, rect_y = 357, rect_w = 200, rect_h = 150\<rparr>,
      RenderPresent]"
proof -
  have "useClip s \<in> {0, 1, 2, 3}" using assms by simp
  from render_frame [OF this, of text_200x150 image_200x200] assms show ?thesis
    by (simp add: text_200x150_def consts_defs signed_divide_int_def signed_modulo_int_def)
qed

subsection \<open>What each key changes\<close>

lemma key_down_frame: "changes_only (designated k) s (key_down k s)"
  by (cases k) (simp_all add: key_effects split: music_state.splits)

subsection \<open>The quit flag\<close>

lemma quit_key_down: "quit s \<Longrightarrow> quit (key_down k s)"
  by (cases k) (simp_all add: key_effects split: music_state.splits)

lemma quit_handle_event: "quit s \<Longrightarrow> quit (handle_event e s)"
  by (simp add: handle_event_cases quit_key_down)

lemma quit_poll_events: "quit s \<Longrightarrow> quit (poll_events es s)"
  by (induction es arbitrary: s) (simp_all add: quit_handle_event)

lemma quit_event_sets: "is_quit_event e \<Longrightarrow> quit (handle_event e s)"
  by (auto simp: is_quit_event_def handle_event_cases)

lemma quit_key_down_only: "k \<noteq> SDLK_q \<Longrightarrow> k \<noteq> SDLK_ESCAPE \<Longrightarrow> quit (key_down k s) = quit s"
  by (cases k) (simp_all add: key_effects split: music_state.splits)

lemma quit_other_event: "\<not> is_quit_event e \<Longrightarrow> quit (handle_event e s) = quit s"
  by (auto simp: is_quit_event_def handle_event_cases quit_key_down_only)

lemma quit_poll_events_iff:
  "quit (poll_events es s) = (quit s \<or> list_ex is_quit_event es)"
proof (induction es arbitrary: s)
  case Nil
  show ?case by simp
next
  case (Cons e es)
  show ?case
  proof (cases "is_quit_event e")
    case True
    then show ?thesis by (simp add: Cons.IH quit_event_sets)
  next
    case False
    then show ?thesis by (simp add: Cons.IH quit_other_event)
  qed
qed

lemma main_loop_quit: "quit s \<Longrightarrow> main_loop sc evs s = s"
  by (cases evs) simp_all

lemma quit_main_loop_iff:
  "quit (main_loop sc evs s) = (quit s \<or> list_ex (list_ex is_quit_event) evs)"
proof (induction evs arbitrary: s)
  case Nil
  show ?case by simp
next
  case (Cons b bs)
  show ?case
    by (simp add: Cons.IH render_fields quit_poll_events_iff)
qed

subsection \<open>The music\<close>

lemma music_key_down: "k \<noteq> SDLK_m \<Longrightarrow> music (key_down k s) = music s"
  by (cases k) (simp_all add: key_effects)

lemma music_handle_event: "\<not> is_m_down e \<Longrightarrow> music (handle_event e s) = music s"
  by (auto simp: is_m_down_def handle_event_cases music_key_down)

lemma music_poll_events:
  "list_all (\<lambda>e. \<not> is_m_down e) es \<Longrightarrow> music (poll_events es s) = music s"
  by (induction es arbitrary: s) (simp_all add: music_handle_event)

lemma music_main_loop:
  "list_all (list_all (\<lambda>e. \<not> is_m_down e)) evs \<Longrightarrow> music (main_loop sc evs s) = music s"
  by (induction evs arbitrary: s) (simp_all add: music_poll_events render_fields)

text \<open>Once started, the music is stopped by no event and no frame.\<close>

lemma music_started_key_down: "music s \<noteq> Stopped \<Longrightarrow> music (key_down k s) \<noteq> Stopped"
  by (cases k) (simp_all add: key_effects split: music_state.splits)

lemma music_started_handle_event:
  "music s \<noteq> Stopped \<Longrightarrow> music (handle_event e s) \<noteq> Stopped"
  by (simp add: handle_event_cases music_started_key_down)

lemma music_started_poll_events:
  "music s \<noteq> Stopped \<Longrightarrow> music (poll_events es s) \<noteq> Stopped"
  by (induction es arbitrary: s) (simp_all add: music_started_handle_event)

lemma music_started_main_loop:
  "music s \<noteq> Stopped \<Longrightarrow> music (main_loop sc evs s) \<noteq> Stopped"
  by (induction evs arbitrary: s) (simp_all add: music_started_poll_events render_fields)

subsection \<open>The log: what the loop adds, and its projections\<close>

lemma inits_append: "inits (a @ b) = inits a @ inits b"
  by (induction a rule: inits.induct) simp_all

lemma shutdowns_append: "shutdowns (a @ b) = shutdowns a @ shutdowns b"
  by (induction a rule: shutdowns.induct) simp_all

lemma acquired_append: "acquired (a @ b) = acquired a @ acquired b"
  by (induction a rule: acquired.induct) simp_all

lemma released_append: "released (a @ b) = released a @ released b"
  by (induction a rule: released.induct) simp_all

lemmas log_append = inits_append shutdowns_append acquired_append released_append

lemma loop_calls_quiet:
  "list_all loop_call cs \<Longrightarrow>
     inits cs = [] \<and> shutdowns cs = [] \<and> acquired cs = [] \<and> released cs = []"
proof (induction cs)
  case Nil
  show ?case by simp
next
  case (Cons c cs)
  then show ?case by (cases c) simp_all
qed

lemma loop_calls_no_halt: "list_all loop_call cs \<Longrightarrow> HaltMusic \<notin> set cs"
  by (induction cs) auto

lemma loop_key_down: "\<exists>cs. trace (key_down k s) = trace s @ cs \<and> list_all loop_call cs"
  by (cases k) (simp_all add: key_effects split: music_state.splits)

lemma loop_handle_event: "\<exists>cs. trace (handle_event e s) = trace s @ cs \<and> list_all loop_call cs"
  using loop_key_down [of "ev_sym e" s] by (simp add: handle_event_cases)

lemma loop_render: "\<exists>cs. trace (render sc s) = trace s @ cs \<and> list_all loop_call cs"
  by (simp add: render_def renderTexture_xy_def renderTexture_def SDL_QueryTexture_def
      split: option.splits)

lemma loop_poll_events: "\<exists>cs. trace (poll_events es s) = trace s @ cs \<and> list_all loop_call cs"
proof (induction es arbitrary: s)
  case Nil
  show ?case by simp
next
  case (Cons e es)
  from loop_handle_event [of e s] obtain c1
    where c1: "trace (handle_event e s) = trace s @ c1" "list_all loop_call c1" by blast
  from Cons.IH [of "handle_event e s"] obtain c2
    where "trace (poll_events es (handle_event e s)) = trace (handle_event e s) @ c2"
      "list_all loop_call c2" by blast
  with c1 have "trace (poll_events (e # es) s) = trace s @ (c1 @ c2) \<and> list_all loop_call (c1 @ c2)"
    by simp
  then show ?case by blast
qed

lemma loop_main_loop: "\<exists>cs. trace (main_loop sc evs s) = trace s @ cs \<and> list_all loop_call cs"
proof (induction evs arbitrary: s)
  case Nil
  show ?case by simp
next
  case (Cons b bs)
  show ?case
  proof (cases "quit s")
    case True
    then show ?thesis by simp
  next
    case False
    from loop_poll_events [of b s] obtain c1
      where c1: "trace (poll_events b s) = trace s @ c1" "list_all loop_call c1" by blast
    from loop_render [of sc "poll_events b s"] obtain c2
      where c2: "trace (render sc (poll_events b s)) = trace (poll_events b s) @ c2"
        "list_all loop_call c2" by blast
    from Cons.IH [of "render sc (poll_events b s)"] obtain c3
      where c3: "trace (main_loop sc bs (render sc (poll_events b s))) =
             trace (render sc (poll_events b s)) @ c3" "list_all loop_call c3" by blast
    from c1 c2 c3 False
    have "trace (main_loop sc (b # bs) s) = trace s @ (c1 @ c2 @ c3) \<and>
          list_all loop_call (c1 @ c2 @ c3)"
      by simp
    then show ?thesis by blast
  qed
qed

subsection \<open>Startup\<close>

lemmas startup_defs =
  startup_def renderText_def loadTexture_def loadMusic_def handle_of_def quitAll_def
  printError_def Let_def

lemma startup_fails_iff: "(snd (startup env) = None) = startup_fails env"
  by (auto simp: startup_defs startup_fails_def split: option.splits if_splits prod.splits)

lemma startup_ok:
  assumes "startup env = (t, Some (tx, img))"
  shows "t = [Init SDL, Init SDL_mixer, Init SDL_image, Init SDL_ttf,
              Acquire Window, Acquire Renderer, Acquire Font,
              Acquire Surface, Acquire Text, Release Surface, Acquire Image, Acquire Song]"
  using assms
  by (auto simp: startup_defs split: option.splits if_splits prod.splits)

lemma startup_failure:
  assumes "snd (startup env) = None"
  shows "open_after [] (fst (startup env)) = []"
    and "list_all (\<lambda>c. \<not> is_render_call c) (fst (startup env))"
    and "PlayMusic l \<notin> set (fst (startup env))"
    and "released (fst (startup env)) =
          filter (\<lambda>h. h \<in> set (acquired (fst (startup env))))
            [Surface, Font, Image, Text, Renderer, Window]"
    and "distinct (acquired (fst (startup env)))"
    and "shutdowns (fst (startup env)) =
           (if SDL_Init_ret env \<noteq> 0 then [] else [SDL_mixer, SDL_image, SDL_ttf, SDL])"
    and "\<exists>pre. fst (startup env) = pre @ (if SDL_Init_ret env \<noteq> 0 then [] else quitAll) \<and>
           shutdowns pre = []"
  using assms
  by (auto simp: startup_defs split: option.splits if_splits prod.splits)


lemma startup_env_ok:
  "startup env_ok =
     ([Init SDL, Init SDL_mixer, Init SDL_image, Init SDL_ttf,
       Acquire Window, Acquire Renderer, Acquire Font,
       Acquire Surface, Acquire Text, Release Surface, Acquire Image, Acquire Song],
      Some (text_200x150, image_200x200))"
  by (simp add: startup_defs env_ok_def IMG_INIT_PNG_def text_200x150_def image_200x200_def)

lemma startup_env_no_image:
  "startup env_no_image =
     ([Init SDL, Init SDL_mixer, Init SDL_image, Init SDL_ttf,
       Acquire Window, Acquire Renderer, Acquire Font,
       Acquire Surface, Acquire Text, Release Surface, Print ''LoadTexture'',
       Release Font, Release Text, Release Renderer, Release Window,
       Shutdown SDL_mixer, Shutdown SDL_image, Shutdown SDL_ttf, Shutdown SDL],
      None)"
  by (simp add: startup_defs env_no_image_def env_ok_def IMG_INIT_PNG_def)

lemma startup_env_no_song:
  "startup env_no_song =
     ([Init SDL, Init SDL_mixer, Init SDL_image, Init SDL_ttf,
       Acquire Window, Acquire Renderer, Acquire Font,
       Acquire Surface, Acquire Text, Release Surface, Acquire Image, Print ''Mix_LoadMUS'',
       Release Font, Release Image, Release Text, Release Renderer, Release Window,
       Shutdown SDL_mixer, Shutdown SDL_image, Shutdown SDL_ttf, Shutdown SDL],
      None)"
  by (simp add: startup_defs env_no_song_def env_ok_def IMG_INIT_PNG_def)

subsection \<open>The result of main\<close>

lemma startup_env_no_play:
  "startup env_no_play =
     ([Init SDL, Init SDL_mixer, Init SDL_image, Init SDL_ttf,
       Acquire Window, Acquire Renderer, Acquire Font,
       Acquire Surface, Acquire Text, Release Surface, Acquire Image, Acquire Song],
      Some (text_200x150, image_200x200))"
  by (simp add: startup_defs env_no_play_def env_ok_def IMG_INIT_PNG_def text_200x150_def
      image_200x200_def)

lemma main_failure:
  assumes "snd (startup env) = None"
  shows "main env evs = \<lparr>calls = fst (startup env), exit_status = Some 1\<rparr>"
  using assms by (cases "startup env") (simp add: main_def)

lemma main_success:
  assumes "startup env = (t, Some (tx, img))"
  shows "exit_status (main env evs) =
           (if list_ex (list_ex is_quit_event) evs then Some 0 else None)"
  using assms by (simp add: main_def Let_def quit_main_loop_iff loop_entry_fields)

lemma main_quit_calls:
  assumes "startup env = (t, Some (tx, img))" and "exit_status (main env evs) = Some 0"
  shows "\<exists>cs. list_all loop_call cs \<and>
           calls (main env evs) =
             t @ PlayMusic (- 1) # cs @ HaltMusic #
               [Release Song, Release Font, Release Image, Release Renderer, Release Window]
               @ quitAll"
proof -
  let ?s = "main_loop (make_scene tx img) evs (loop_entry (Mix_PlayMusic_ret env) t)"
  from loop_main_loop [of "make_scene tx img" evs "loop_entry (Mix_PlayMusic_ret env) t"] obtain cs
    where cs: "trace ?s = t @ PlayMusic (- 1) # cs" "list_all loop_call cs"
    by (auto simp: loop_entry_fields)
  have q: "quit ?s"
    using assms by (simp add: main_def Let_def split: if_splits)
  have "calls (main env evs) =
          t @ PlayMusic (- 1) # cs @ HaltMusic #
            [Release Song, Release Font, Release Image, Release Renderer, Release Window] @ quitAll"
    using assms(1) q cs(1) by (simp add: main_def Let_def Mix_HaltMusic_def)
  with cs(2) show ?thesis by blast
qed

lemma startup_ok_core:
  assumes "startup env = (t, Some (tx, img))"
  shows "SDL_Init_ret env = 0"
proof -
  from assms have "snd (startup env) \<noteq> None" by simp
  then have "\<not> startup_fails env" by (simp add: startup_fails_iff)
  then show ?thesis by (simp add: startup_fails_def)
qed

lemma main_env_ok_close:
  "main env_ok [[window_close]] =
     \<lparr>calls =
        [Init SDL, Init SDL_mixer, Init SDL_image, Init SDL_ttf,
         Acquire Window, Acquire Renderer, Acquire Font,
         Acquire Surface, Acquire Text, Release Surface, Acquire Image, Acquire Song,
         PlayMusic (- 1),
         RenderClear,
         RenderCopy Renderer (Some image_200x200)
           (Some \<lparr>rect_x = 0, rect_y = 0, rect_w = 100, rect_h = 100\<rparr>)
           \<lparr>rect_x = 316, rect_y = 382, rect_w = 100, rect_h = 100\<rparr>,
         RenderCopy Renderer (Some text_200x150) None
           \<lparr>rect_x = 266, rect_y = 357, rect_w = 200, rect_h = 150\<rparr>,
         RenderPresent,
         HaltMusic,
         Release Song, Release Font, Release Image, Release Renderer, Release Window,
         Shutdown SDL_mixer, Shutdown SDL_image, Shutdown SDL_ttf, Shutdown SDL],
      exit_status = Some 0\<rparr>"
proof -
  have h: "handle_event window_close s = s\<lparr>quit := True\<rparr>" for s
    by (simp add: handle_event_cases window_close_def)
  show ?thesis
    by (simp add: main_def startup_env_ok h render_fields loop_entry_fields frame_200
        Mix_HaltMusic_def quitAll_def)
qed

text \<open>
  On the normal quit path the text texture is not among the handles line 338 passes to
  \<^verbatim>\<open>cleanup\<close>, although lines 211 and 220 pass it: it is still open when the program
  exits.
\<close>

lemma text_texture_left_open:
  "open_after [] (calls (main env_ok [[window_close]])) = [Text]"
  by (simp add: main_env_ok_close)

section \<open>The claims\<close>

text \<open>
  C1. In every state the event loop can reach from its entry, where the sprite is centred
  at (316, 382), the sprite position is in bounds, 0 \<le> x \<le> 632 and 0 \<le> y \<le> 764,
  whatever events were handled and frames drawn on the way. The bounds are the screen,
  732 by 864, less the 100 by 100 sprite. By \<open>reachable_poll_events\<close> and
  \<open>reachable_main_loop\<close> the states of every run of the loop are among these.
\<close>

theorem C1_position_in_bounds:
  assumes "reachable sc t s"
  shows "0 \<le> iX s \<and> iX s \<le> 632 \<and> 0 \<le> iY s \<and> iY s \<le> 764 \<and>
         SCREEN_WIDTH - iW = 632 \<and> SCREEN_HEIGHT - iH = 764 \<and>
         iX (loop_entry r t) = 316 \<and> iY (loop_entry r t) = 382"
  using position_reachable [OF assms] by (simp add: consts_defs loop_entry_fields)

theorem C1_position_in_bounds_witness:
  "reachable scene_200 []
     (poll_events [KeyDown SDLK_UP, KeyDown SDLK_LEFT, KeyDown SDLK_LEFT] (loop_entry 0 [])) \<and>
   iX (poll_events [KeyDown SDLK_UP, KeyDown SDLK_LEFT, KeyDown SDLK_LEFT] (loop_entry 0 [])) = 296 \<and>
   iY (poll_events [KeyDown SDLK_UP, KeyDown SDLK_LEFT, KeyDown SDLK_LEFT] (loop_entry 0 [])) = 372 \<and>
   (0 :: int) \<le> 296 \<and> (296 :: int) \<le> 632 \<and> (0 :: int) \<le> 372 \<and> (372 :: int) \<le> 764"
proof -
  let ?s = "poll_events [KeyDown SDLK_UP, KeyDown SDLK_LEFT, KeyDown SDLK_LEFT] (loop_entry 0 [])"
  have r: "reachable scene_200 [] ?s"
    by (intro reachable_poll_events reachable.entry)
  have x: "iX ?s = 296" and y: "iY ?s = 372"
    by (simp_all add: handle_KeyDown key_effects loop_entry_fields)
  from C1_position_in_bounds [OF r] r x y show ?thesis by simp
qed

text \<open>
  C2, as amended. On every exit path the shutdown calls are the last calls made, after
  every release: none when the core initialisation itself failed, and otherwise the four
  of \<^verbatim>\<open>quitAll\<close> in the order mixer, image, font, core. That is the initialisation order
  of the three add-on libraries followed by the core, not the reverse of the
  initialisation order. On every early-failure path each handle acquired is released
  exactly once, in the order of the \<^verbatim>\<open>cleanup\<close> arguments: (surface,) font, image texture,
  text texture, renderer, window; the font goes before the two textures acquired after
  it, so this is not the reverse of the acquisition order either. On the normal quit path
  all seven handles were acquired; the music is halted exactly once, after the last call
  of the loop and before any of these releases; and music, font, image texture, renderer
  and window are then released exactly once, in this order. (Nothing is said here about
  the text texture on the normal quit path; see \<open>text_texture_left_open\<close>.)

  The claim as stated fails when the music does not load: the shutdown order is not the
  reverse of the initialisation order, and the release order is not the reverse of the
  acquisition order.
\<close>

theorem C2_release_and_shutdown:
  assumes "exit_status (main env evs) = Some st"
  shows "shutdowns (calls (main env evs)) =
           (if SDL_Init_ret env \<noteq> 0 then [] else [SDL_mixer, SDL_image, SDL_ttf, SDL]) \<and>
         (\<exists>pre. calls (main env evs) = pre @ (if SDL_Init_ret env \<noteq> 0 then [] else quitAll) \<and>
                shutdowns pre = []) \<and>
         (st = 1 \<longrightarrow>
            released (calls (main env evs)) =
              filter (\<lambda>h. h \<in> set (acquired (calls (main env evs))))
                [Surface, Font, Image, Text, Renderer, Window] \<and>
            distinct (acquired (calls (main env evs)))) \<and>
         (st = 0 \<longrightarrow>
            acquired (calls (main env evs)) =
              [Window, Renderer, Font, Surface, Text, Image, Song] \<and>
            filter (\<lambda>h. h \<noteq> Text) (released (calls (main env evs))) =
              [Surface, Song, Font, Image, Renderer, Window] \<and>
            (\<exists>pre post.
               calls (main env evs) = pre @ HaltMusic # post \<and>
               HaltMusic \<notin> set pre \<and> HaltMusic \<notin> set post \<and>
               filter (\<lambda>h. h \<noteq> Text) (released pre) = [Surface] \<and>
               filter (\<lambda>h. h \<noteq> Text) (released post) =
                 [Song, Font, Image, Renderer, Window] \<and>
               list_all (\<lambda>c. \<not> loop_call c) post))"
proof (cases "snd (startup env) = None")
  case True
  note m = main_failure [OF True, of evs]
  from m assms have st: "st = 1" by simp
  from startup_failure(4-7) [OF True] m st show ?thesis by simp
next
  case False
  then obtain t tx img where su: "startup env = (t, Some (tx, img))"
    by (cases "startup env") auto
  from main_success [OF su, of evs] assms have st: "st = 0"
    by (simp split: if_splits)
  from main_quit_calls [OF su] assms st obtain cs
    where cs: "list_all loop_call cs"
      and c: "calls (main env evs) =
               t @ PlayMusic (- 1) # cs @ HaltMusic #
                 [Release Song, Release Font, Release Image, Release Renderer, Release Window]
                 @ quitAll"
    by blast
  note quiet = loop_calls_quiet [OF cs]
  note t = startup_ok [OF su]
  have core: "SDL_Init_ret env = 0"
    using su by (rule startup_ok_core)
  have sh: "shutdowns (calls (main env evs)) = [SDL_mixer, SDL_image, SDL_ttf, SDL]"
    unfolding c t by (simp add: log_append quiet quitAll_def)
  have pre: "\<exists>pre. calls (main env evs) = pre @ quitAll \<and> shutdowns pre = []"
  proof (intro exI conjI)
    show "calls (main env evs) =
            (t @ PlayMusic (- 1) # cs @ HaltMusic #
               [Release Song, Release Font, Release Image, Release Renderer, Release Window])
            @ quitAll"
      unfolding c by simp
    show "shutdowns (t @ PlayMusic (- 1) # cs @ HaltMusic #
               [Release Song, Release Font, Release Image, Release Renderer, Release Window]) = []"
      unfolding t by (simp add: log_append quiet)
  qed
  have ac: "acquired (calls (main env evs)) = [Window, Renderer, Font, Surface, Text, Image, Song]"
    unfolding c t by (simp add: log_append quiet quitAll_def)
  have re: "released (calls (main env evs)) = [Surface, Song, Font, Image, Renderer, Window]"
    unfolding c t by (simp add: log_append quiet quitAll_def)
  have halt: "\<exists>pre post.
      calls (main env evs) = pre @ HaltMusic # post \<and>
      HaltMusic \<notin> set pre \<and> HaltMusic \<notin> set post \<and>
      filter (\<lambda>h. h \<noteq> Text) (released pre) = [Surface] \<and>
      filter (\<lambda>h. h \<noteq> Text) (released post) = [Song, Font, Image, Renderer, Window] \<and>
      list_all (\<lambda>c. \<not> loop_call c) post"
  proof (intro exI conjI)
    show "calls (main env evs) =
            (t @ PlayMusic (- 1) # cs) @ HaltMusic #
              ([Release Song, Release Font, Release Image, Release Renderer, Release Window]
               @ quitAll)"
      unfolding c by simp
    show "HaltMusic \<notin> set (t @ PlayMusic (- 1) # cs)"
      unfolding t using loop_calls_no_halt [OF cs] by simp
    show "HaltMusic \<notin> set ([Release Song, Release Font, Release Image, Release Renderer,
            Release Window] @ quitAll)"
      by (simp add: quitAll_def)
    show "filter (\<lambda>h. h \<noteq> Text) (released (t @ PlayMusic (- 1) # cs)) = [Surface]"
      unfolding t by (simp add: log_append quiet)
    show "filter (\<lambda>h. h \<noteq> Text)
            (released ([Release Song, Release Font, Release Image, Release Renderer,
               Release Window] @ quitAll)) = [Song, Font, Image, Renderer, Window]"
      by (simp add: quitAll_def)
    show "list_all (\<lambda>c. \<not> loop_call c)
            ([Release Song, Release Font, Release Image, Release Renderer, Release Window]
             @ quitAll)"
      by (simp add: quitAll_def)
  qed
  from sh pre core have first: "shutdowns (calls (main env evs)) =
           (if SDL_Init_ret env \<noteq> 0 then [] else [SDL_mixer, SDL_image, SDL_ttf, SDL]) \<and>
         (\<exists>pre. calls (main env evs) = pre @ (if SDL_Init_ret env \<noteq> 0 then [] else quitAll) \<and>
                shutdowns pre = [])"
    by simp
  from first ac re halt st show ?thesis by simp
qed


theorem C2_release_and_shutdown_witness:
  "exit_status (main env_no_song []) = Some 1 \<and>
   shutdowns (calls (main env_no_song [])) = [SDL_mixer, SDL_image, SDL_ttf, SDL] \<and>
   released (calls (main env_no_song [])) = [Surface, Font, Image, Text, Renderer, Window] \<and>
   exit_status (main env_ok [[window_close]]) = Some 0 \<and>
   shutdowns (calls (main env_ok [[window_close]])) = [SDL_mixer, SDL_image, SDL_ttf, SDL] \<and>
   acquired (calls (main env_ok [[window_close]])) =
     [Window, Renderer, Font, Surface, Text, Image, Song] \<and>
   filter (\<lambda>h. h \<noteq> Text) (released (calls (main env_ok [[window_close]]))) =
     [Surface, Song, Font, Image, Renderer, Window] \<and>
   HaltMusic \<in> set (calls (main env_ok [[window_close]]))"
proof -
  have "snd (startup env_no_song) = None"
    by (simp add: startup_env_no_song)
  from main_failure [OF this, of "[]"]
  have a: "exit_status (main env_no_song []) = Some 1"
    and ca: "calls (main env_no_song []) = fst (startup env_no_song)"
    by simp_all
  have b: "exit_status (main env_ok [[window_close]]) = Some 0"
    by (simp add: main_env_ok_close)
  have i: "SDL_Init_ret env_no_song = 0" "SDL_Init_ret env_ok = 0"
    by (simp_all add: env_no_song_def env_ok_def)
  from C2_release_and_shutdown [OF a] C2_release_and_shutdown [OF b] a b i
  have "shutdowns (calls (main env_no_song [])) = [SDL_mixer, SDL_image, SDL_ttf, SDL]"
    and rel: "released (calls (main env_no_song [])) =
           filter (\<lambda>h. h \<in> set (acquired (calls (main env_no_song []))))
             [Surface, Font, Image, Text, Renderer, Window]"
    and "shutdowns (calls (main env_ok [[window_close]])) = [SDL_mixer, SDL_image, SDL_ttf, SDL]"
    and "acquired (calls (main env_ok [[window_close]])) =
           [Window, Renderer, Font, Surface, Text, Image, Song]"
    and "filter (\<lambda>h. h \<noteq> Text) (released (calls (main env_ok [[window_close]]))) =
           [Surface, Song, Font, Image, Renderer, Window]"
    and halt: "\<exists>pre post. calls (main env_ok [[window_close]]) = pre @ HaltMusic # post \<and>
           HaltMusic \<notin> set pre \<and> HaltMusic \<notin> set post \<and>
           filter (\<lambda>h. h \<noteq> Text) (released pre) = [Surface] \<and>
           filter (\<lambda>h. h \<noteq> Text) (released post) = [Song, Font, Image, Renderer, Window] \<and>
           list_all (\<lambda>c. \<not> loop_call c) post"
    by simp_all
  moreover have "released (calls (main env_no_song [])) =
      [Surface, Font, Image, Text, Renderer, Window]"
    using rel unfolding ca by (simp add: startup_env_no_song)
  moreover from halt have "HaltMusic \<in> set (calls (main env_ok [[window_close]]))"
    by auto
  ultimately show ?thesis using a b by blast
qed

theorem C2_counterexample:
  "exit_status (main env_no_song []) = Some 1 \<and>
   inits (calls (main env_no_song [])) = [SDL, SDL_mixer, SDL_image, SDL_ttf] \<and>
   shutdowns (calls (main env_no_song [])) = [SDL_mixer, SDL_image, SDL_ttf, SDL] \<and>
   shutdowns (calls (main env_no_song [])) \<noteq> rev (inits (calls (main env_no_song []))) \<and>
   acquired (calls (main env_no_song [])) = [Window, Renderer, Font, Surface, Text, Image] \<and>
   released (calls (main env_no_song [])) = [Surface, Font, Image, Text, Renderer, Window] \<and>
   filter (\<lambda>h. h \<noteq> Surface) (released (calls (main env_no_song []))) \<noteq>
     rev (filter (\<lambda>h. h \<noteq> Surface) (acquired (calls (main env_no_song []))))"
proof -
  have "snd (startup env_no_song) = None"
    by (simp add: startup_env_no_song)
  from main_failure [OF this, of "[]"] show ?thesis
    by (simp add: startup_env_no_song)
qed


text \<open>
  C3, as amended. When the loop is running and the events it drains hold a window-close
  event or a Q/Escape key-down, the quit flag is true after the drain (a quit event sets
  it in any state and no event resets it), the loop then draws exactly one more frame
  (clear, blit of the sprite, blit of the text, present) and ends: the events of later
  iterations are never polled and nothing is drawn after that frame.

  The claim as stated fails on a single window-close event: after it is handled the log
  still gains the four calls of a frame.
\<close>

theorem C3_quit_then_one_frame:
  assumes "reachable (make_scene tx img) t s" and "\<not> quit s" and "list_ex is_quit_event b"
  shows "quit (poll_events b s) \<and>
         main_loop (make_scene tx img) (b # bs) s = render (make_scene tx img) (poll_events b s) \<and>
         quit (main_loop (make_scene tx img) (b # bs) s) \<and>
         trace (main_loop (make_scene tx img) (b # bs) s) = trace (poll_events b s) @
           [RenderClear,
            RenderCopy Renderer (Some img)
              (Some \<lparr>rect_x = useClip (poll_events b s) sdiv 2 * 100,
                     rect_y = useClip (poll_events b s) smod 2 * 100,
                     rect_w = 100, rect_h = 100\<rparr>)
              \<lparr>rect_x = iX (poll_events b s), rect_y = iY (poll_events b s),
               rect_w = 100, rect_h = 100\<rparr>,
            RenderCopy Renderer (Some tx) None
              \<lparr>rect_x = SCREEN_WIDTH sdiv 2 - tex_w tx sdiv 2,
               rect_y = SCREEN_HEIGHT sdiv 2 - tex_h tx sdiv 2,
               rect_w = tex_w tx, rect_h = tex_h tx\<rparr>,
            RenderPresent] \<and>
         (\<forall>e s'. is_quit_event e \<longrightarrow> quit (handle_event e s')) \<and>
         (\<forall>e s'. quit s' \<longrightarrow> quit (handle_event e s'))"
proof -
  let ?sc = "make_scene tx img"
  let ?s = "poll_events b s"
  have q: "quit ?s"
    using assms(3) by (simp add: quit_poll_events_iff)
  have "quit (render ?sc ?s)"
    using q by (simp add: render_fields)
  then have m: "main_loop ?sc (b # bs) s = render ?sc ?s"
    using assms(2) by (simp add: main_loop_quit)
  have "reachable ?sc t ?s"
    using assms(1) by (rule reachable_poll_events)
  then have "useClip ?s \<in> {0, 1, 2, 3}"
    by (rule clip_index_reachable)
  from render_frame [OF this, of tx img] q m show ?thesis
    by (simp add: render_fields quit_event_sets quit_handle_event)
qed


theorem C3_quit_then_one_frame_witness:
  "reachable (make_scene text_200x150 image_200x200) [] (loop_entry 0 []) \<and>
   \<not> quit (loop_entry 0 []) \<and>
   list_ex is_quit_event [KeyDown SDLK_q, KeyDown SDLK_LEFT] \<and>
   quit (poll_events [KeyDown SDLK_q, KeyDown SDLK_LEFT] (loop_entry 0 [])) \<and>
   trace (main_loop (make_scene text_200x150 image_200x200)
            [[KeyDown SDLK_q, KeyDown SDLK_LEFT], [KeyDown SDLK_UP]] (loop_entry 0 [])) =
     [PlayMusic (- 1),
      RenderClear,
      RenderCopy Renderer (Some image_200x200)
        (Some \<lparr>rect_x = 0, rect_y = 0, rect_w = 100, rect_h = 100\<rparr>)
        \<lparr>rect_x = 306, rect_y = 382, rect_w = 100, rect_h = 100\<rparr>,
      RenderCopy Renderer (Some text_200x150) None
        \<lparr>rect_x = 266, rect_y = 357, rect_w = 200, rect_h = 150\<rparr>,
      RenderPresent]"
proof -
  let ?b = "[KeyDown SDLK_q, KeyDown SDLK_LEFT]"
  have r: "reachable (make_scene text_200x150 image_200x200) [] (loop_entry 0 [])"
    by (rule reachable.entry)
  have n: "\<not> quit (loop_entry 0 [])"
    by (simp add: loop_entry_fields)
  have e: "list_ex is_quit_event ?b"
    by (simp add: is_quit_event_def KeyDown_def)
  have p: "poll_events ?b (loop_entry 0 []) = (loop_entry 0 [])\<lparr>quit := True, iX := 306\<rparr>"
    by (simp add: handle_KeyDown key_effects loop_entry_fields)
  note th = C3_quit_then_one_frame [OF r n e, of "[[KeyDown SDLK_UP]]"]
  have q: "quit (poll_events ?b (loop_entry 0 []))"
    using th by (rule conjunct1)
  have tr: "trace (main_loop (make_scene text_200x150 image_200x200)
            [?b, [KeyDown SDLK_UP]] (loop_entry 0 [])) =
     [PlayMusic (- 1),
      RenderClear,
      RenderCopy Renderer (Some image_200x200)
        (Some \<lparr>rect_x = 0, rect_y = 0, rect_w = 100, rect_h = 100\<rparr>)
        \<lparr>rect_x = 306, rect_y = 382, rect_w = 100, rect_h = 100\<rparr>,
      RenderCopy Renderer (Some text_200x150) None
        \<lparr>rect_x = 266, rect_y = 357, rect_w = 200, rect_h = 150\<rparr>,
      RenderPresent]"
    using th [THEN conjunct2, THEN conjunct2, THEN conjunct2, THEN conjunct1]
    unfolding p
    by (simp add: loop_entry_fields text_200x150_def consts_defs
        signed_divide_int_def signed_modulo_int_def)
  from r n e q tr show ?thesis by blast
qed


theorem C3_counterexample:
  "is_quit_event window_close \<and>
   quit (poll_events [window_close] (loop_entry 0 [])) \<and>
   trace (poll_events [window_close] (loop_entry 0 [])) = [PlayMusic (- 1)] \<and>
   trace (main_loop (make_scene text_200x150 image_200x200) [[window_close]] (loop_entry 0 [])) =
     [PlayMusic (- 1),
      RenderClear,
      RenderCopy Renderer (Some image_200x200)
        (Some \<lparr>rect_x = 0, rect_y = 0, rect_w = 100, rect_h = 100\<rparr>)
        \<lparr>rect_x = 316, rect_y = 382, rect_w = 100, rect_h = 100\<rparr>,
      RenderCopy Renderer (Some text_200x150) None
        \<lparr>rect_x = 266, rect_y = 357, rect_w = 200, rect_h = 150\<rparr>,
      RenderPresent]"
proof -
  have h: "handle_event window_close (loop_entry 0 []) = (loop_entry 0 [])\<lparr>quit := True\<rparr>"
    by (simp add: handle_event_cases window_close_def)
  show ?thesis
    by (simp add: is_quit_event_def h loop_entry_fields frame_200) (simp add: window_close_def)
qed



text \<open>
  C5. The exit status is 1 exactly when a step of startup fails, whatever the events; it
  is 0 when startup succeeds and the events hold a window-close or a Q/Escape key-down;
  otherwise the program is still in its loop when the input ends. When the image fails
  to load the status is 1, the calls made are those of startup alone (no frame is drawn
  and the music is never started: the loop is not entered), and the window is not among
  the handles left open.
\<close>

theorem C5_exit_status:
  "exit_status (main env evs) =
     (if startup_fails env then Some 1
      else if list_ex (list_ex is_quit_event) evs then Some 0 else None) \<and>
   (IMG_LoadTexture_ret env = None \<longrightarrow>
      exit_status (main env evs) = Some 1 \<and>
      calls (main env evs) = fst (startup env) \<and>
      list_all (\<lambda>c. \<not> is_render_call c) (calls (main env evs)) \<and>
      PlayMusic (- 1) \<notin> set (calls (main env evs)) \<and>
      Window \<notin> set (open_after [] (calls (main env evs))))"
proof -
  have status: "exit_status (main env evs) =
     (if startup_fails env then Some 1
      else if list_ex (list_ex is_quit_event) evs then Some 0 else None)"
  proof (cases "startup_fails env")
    case True
    then have "snd (startup env) = None" by (simp add: startup_fails_iff)
    from main_failure [OF this] True show ?thesis by simp
  next
    case False
    then have "snd (startup env) \<noteq> None" by (simp add: startup_fails_iff)
    then obtain t tx img where "startup env = (t, Some (tx, img))"
      by (cases "startup env") auto
    from main_success [OF this] False show ?thesis by simp
  qed
  have image: "exit_status (main env evs) = Some 1 \<and>
      calls (main env evs) = fst (startup env) \<and>
      list_all (\<lambda>c. \<not> is_render_call c) (calls (main env evs)) \<and>
      PlayMusic (- 1) \<notin> set (calls (main env evs)) \<and>
      Window \<notin> set (open_after [] (calls (main env evs)))"
    if "IMG_LoadTexture_ret env = None"
  proof -
    from that have "startup_fails env" by (simp add: startup_fails_def)
    then have f: "snd (startup env) = None" by (simp add: startup_fails_iff)
    from main_failure [OF f] startup_failure(1-3) [OF f] show ?thesis by simp
  qed
  from status image show ?thesis by blast
qed

theorem C5_exit_status_witness:
  "exit_status (main env_ok [[KeyDown SDLK_UP], [window_close]]) = Some 0 \<and>
   exit_status (main env_ok [[KeyDown SDLK_UP, KeyDown SDLK_q]]) = Some 0 \<and>
   IMG_LoadTexture_ret env_no_image = None \<and>
   exit_status (main env_no_image [[window_close]]) = Some 1 \<and>
   calls (main env_no_image [[window_close]]) =
     [Init SDL, Init SDL_mixer, Init SDL_image, Init SDL_ttf,
      Acquire Window, Acquire Renderer, Acquire Font,
      Acquire Surface, Acquire Text, Release Surface, Print ''LoadTexture'',
      Release Font, Release Text, Release Renderer, Release Window,
      Shutdown SDL_mixer, Shutdown SDL_image, Shutdown SDL_ttf, Shutdown SDL] \<and>
   Window \<notin> set (open_after [] (calls (main env_no_image [[window_close]])))"
proof -
  have ok: "\<not> startup_fails env_ok"
    by (simp add: startup_fails_def env_ok_def IMG_INIT_PNG_def)
  have img: "IMG_LoadTexture_ret env_no_image = None"
    by (simp add: env_no_image_def)
  have q1: "list_ex (list_ex is_quit_event) [[KeyDown SDLK_UP], [window_close]]"
    and q2: "list_ex (list_ex is_quit_event) [[KeyDown SDLK_UP, KeyDown SDLK_q]]"
    by (simp_all add: is_quit_event_def window_close_def KeyDown_def)
  from C5_exit_status [of env_ok "[[KeyDown SDLK_UP], [window_close]]"] ok q1
  have a: "exit_status (main env_ok [[KeyDown SDLK_UP], [window_close]]) = Some 0"
    by simp
  from C5_exit_status [of env_ok "[[KeyDown SDLK_UP, KeyDown SDLK_q]]"] ok q2
  have b: "exit_status (main env_ok [[KeyDown SDLK_UP, KeyDown SDLK_q]]) = Some 0"
    by simp
  from C5_exit_status [of env_no_image "[[window_close]]"] img
  have c: "exit_status (main env_no_image [[window_close]]) = Some 1 \<and>
      calls (main env_no_image [[window_close]]) = fst (startup env_no_image) \<and>
      Window \<notin> set (open_after [] (calls (main env_no_image [[window_close]])))"
    by blast
  from a b c img show ?thesis by (simp add: startup_env_no_image)
qed


text \<open>
  C6. An Up/W key-down sets y to max(0, y - 10), a Down/S key-down sets y to
  min(764, y + 10), Left/A sets x to max(0, x - 10) and Right/D sets x to
  min(632, x + 10), and nothing else changes: the check before and the check after the
  step amount to a clamp to [0, bound] of the stepped position. This holds in every
  state, reachable or not.
\<close>

theorem C6_moves_clamp:
  "handle_event (KeyDown SDLK_UP) s = s\<lparr>iY := max 0 (iY s - 10)\<rparr> \<and>
   handle_event (KeyDown SDLK_w) s = s\<lparr>iY := max 0 (iY s - 10)\<rparr> \<and>
   handle_event (KeyDown SDLK_DOWN) s = s\<lparr>iY := min 764 (iY s + 10)\<rparr> \<and>
   handle_event (KeyDown SDLK_s) s = s\<lparr>iY := min 764 (iY s + 10)\<rparr> \<and>
   handle_event (KeyDown SDLK_LEFT) s = s\<lparr>iX := max 0 (iX s - 10)\<rparr> \<and>
   handle_event (KeyDown SDLK_a) s = s\<lparr>iX := max 0 (iX s - 10)\<rparr> \<and>
   handle_event (KeyDown SDLK_RIGHT) s = s\<lparr>iX := min 632 (iX s + 10)\<rparr> \<and>
   handle_event (KeyDown SDLK_d) s = s\<lparr>iX := min 632 (iX s + 10)\<rparr>"
  by (simp add: handle_KeyDown move_up_clamp move_down_clamp move_left_clamp move_right_clamp)

text \<open>
  C7. In any state \<open>s'\<close>, a key-down of digit or keypad k, for k from 1 to 4, sets the
  clip index to k - 1. In every state \<open>s\<close> the loop can reach the clip index is one of
  0, 1, 2, 3, the clip it selects is the 100 by 100 rectangle at
  (i / 2 * 100, i % 2 * 100), and the frame drawn in that state blits this clip of the
  image at the sprite position.
\<close>

theorem C7_clip_index:
  assumes "reachable (make_scene tx img) t s"
  shows "useClip (handle_event (KeyDown SDLK_1) s') = 0 \<and>
         useClip (handle_event (KeyDown SDLK_KP_1) s') = 0 \<and>
         useClip (handle_event (KeyDown SDLK_2) s') = 1 \<and>
         useClip (handle_event (KeyDown SDLK_KP_2) s') = 1 \<and>
         useClip (handle_event (KeyDown SDLK_3) s') = 2 \<and>
         useClip (handle_event (KeyDown SDLK_KP_3) s') = 2 \<and>
         useClip (handle_event (KeyDown SDLK_4) s') = 3 \<and>
         useClip (handle_event (KeyDown SDLK_KP_4) s') = 3 \<and>
         useClip s \<in> {0, 1, 2, 3} \<and>
         sc_clips (make_scene tx img) ! nat (useClip s) =
           \<lparr>rect_x = useClip s sdiv 2 * 100, rect_y = useClip s smod 2 * 100,
            rect_w = 100, rect_h = 100\<rparr> \<and>
         trace (render (make_scene tx img) s) = trace s @
           [RenderClear,
            RenderCopy Renderer (Some img)
              (Some \<lparr>rect_x = useClip s sdiv 2 * 100, rect_y = useClip s smod 2 * 100,
                     rect_w = 100, rect_h = 100\<rparr>)
              \<lparr>rect_x = iX s, rect_y = iY s, rect_w = 100, rect_h = 100\<rparr>,
            RenderCopy Renderer (Some tx) None
              \<lparr>rect_x = SCREEN_WIDTH sdiv 2 - tex_w tx sdiv 2,
               rect_y = SCREEN_HEIGHT sdiv 2 - tex_h tx sdiv 2,
               rect_w = tex_w tx, rect_h = tex_h tx\<rparr>,
            RenderPresent]"
proof -
  have idx: "useClip s \<in> {0, 1, 2, 3}"
    using assms by (rule clip_index_reachable)
  have keys:
    "useClip (handle_event (KeyDown SDLK_1) s') = 0 \<and>
     useClip (handle_event (KeyDown SDLK_KP_1) s') = 0 \<and>
     useClip (handle_event (KeyDown SDLK_2) s') = 1 \<and>
     useClip (handle_event (KeyDown SDLK_KP_2) s') = 1 \<and>
     useClip (handle_event (KeyDown SDLK_3) s') = 2 \<and>
     useClip (handle_event (KeyDown SDLK_KP_3) s') = 2 \<and>
     useClip (handle_event (KeyDown SDLK_4) s') = 3 \<and>
     useClip (handle_event (KeyDown SDLK_KP_4) s') = 3"
    by (simp add: handle_KeyDown)
  from keys idx clip_selected [OF idx] render_frame [OF idx] show ?thesis
    by blast
qed

theorem C7_clip_index_witness:
  "reachable (make_scene text_200x150 image_200x200) []
     (handle_event (KeyDown SDLK_3) (loop_entry 0 [])) \<and>
   useClip (handle_event (KeyDown SDLK_3) (loop_entry 0 [])) = 2 \<and>
   sc_clips (make_scene text_200x150 image_200x200) ! nat 2 =
     \<lparr>rect_x = 100, rect_y = 0, rect_w = 100, rect_h = 100\<rparr>"
proof -
  let ?s = "handle_event (KeyDown SDLK_3) (loop_entry 0 [])"
  have r: "reachable (make_scene text_200x150 image_200x200) [] ?s"
    by (intro reachable.event reachable.entry)
  have u: "useClip ?s = 2"
    by (simp add: handle_KeyDown)
  from C7_clip_index [OF r, of "loop_entry 0 []"] r u show ?thesis
    by (simp add: signed_divide_int_def signed_modulo_int_def)
qed

text \<open>
  C8. The position form of \<^verbatim>\<open>renderTexture\<close>: with a clip, the destination rectangle is
  at (x, y) with the clip's width and height; with no clip, it has the native width and
  height that \<^verbatim>\<open>SDL_QueryTexture\<close> reports for the texture. Either way the call is the
  destination form's with that rectangle, which is one \<^verbatim>\<open>SDL_RenderCopy\<close> of the clip, or
  of the whole texture, into a rectangle of the source's size. A texture of 200 by 150
  with no clip is drawn into a rectangle of 200 by 150. (A null texture has no native
  size; \<open>render\<close>, the only caller, passes the two textures that startup checked.)
\<close>

theorem C8_position_form:
  "renderTexture_xy tex ren x y (Some c) =
     renderTexture tex ren
       \<lparr>rect_x = x, rect_y = y, rect_w = rect_w c, rect_h = rect_h c\<rparr> (Some c) \<and>
   renderTexture_xy (Some tx) ren x y None =
     renderTexture (Some tx) ren
       \<lparr>rect_x = x, rect_y = y, rect_w = tex_w tx, rect_h = tex_h tx\<rparr> None \<and>
   SDL_QueryTexture (Some tx) = Some (tex_w tx, tex_h tx) \<and>
   renderTexture tex ren dst clip = [RenderCopy ren tex clip dst] \<and>
   renderTexture_xy (Some text_200x150) ren x y None =
     [RenderCopy ren (Some text_200x150) None
        \<lparr>rect_x = x, rect_y = y, rect_w = 200, rect_h = 150\<rparr>]"
  by (simp add: renderTexture_xy_def renderTexture_def SDL_QueryTexture_def text_200x150_def)

text \<open>
  C9, as amended. After a successful startup the first call the program makes is
  \<^verbatim>\<open>Mix_PlayMusic(song, -1)\<close>, before any event is polled, and its result is discarded.
  Provided that this call succeeds (returns 0), the loop is entered with the music
  playing; as long as no M key-down has been handled, whatever other events were handled
  and frames drawn, the music is still playing, so the first M key-down finds it playing
  and pauses it; it does not start the track.

  The claim as stated fails when the call at line 251 returns -1: the loop is entered
  with the music stopped, and the first M key-down takes the branch of lines 310-311 and
  calls \<^verbatim>\<open>Mix_PlayMusic\<close> again.
\<close>

theorem C9_music_started:
  assumes "startup env = (t, Some (tx, img))"
    and "Mix_PlayMusic_ret env = 0"
    and "list_all (list_all (\<lambda>e. \<not> is_m_down e)) evs"
    and "list_all (\<lambda>e. \<not> is_m_down e) es"
  shows "(\<exists>cs. calls (main env evs) = t @ PlayMusic (- 1) # cs) \<and>
         trace (loop_entry (Mix_PlayMusic_ret env) t) = t @ [PlayMusic (- 1)] \<and>
         music (loop_entry (Mix_PlayMusic_ret env) t) = Playing \<and>
         music (poll_events es
                 (main_loop (make_scene tx img) evs (loop_entry (Mix_PlayMusic_ret env) t))) =
           Playing \<and>
         handle_event (KeyDown SDLK_m)
             (poll_events es
               (main_loop (make_scene tx img) evs (loop_entry (Mix_PlayMusic_ret env) t))) =
           (poll_events es
             (main_loop (make_scene tx img) evs (loop_entry (Mix_PlayMusic_ret env) t)))
             \<lparr>music := Paused,
              trace := trace (poll_events es
                         (main_loop (make_scene tx img) evs
                            (loop_entry (Mix_PlayMusic_ret env) t)))
                       @ [PauseMusic]\<rparr>"
proof -
  let ?s = "main_loop (make_scene tx img) evs (loop_entry (Mix_PlayMusic_ret env) t)"
  from loop_main_loop [of "make_scene tx img" evs "loop_entry (Mix_PlayMusic_ret env) t"]
  obtain cs where cs: "trace ?s = t @ PlayMusic (- 1) # cs"
    by (auto simp: loop_entry_fields)
  have "\<exists>cs. calls (main env evs) = t @ PlayMusic (- 1) # cs"
    using assms(1) cs by (simp add: main_def Let_def Mix_HaltMusic_def)
  moreover have m: "music (poll_events es ?s) = Playing"
    using assms(2,3,4) by (simp add: music_poll_events music_main_loop loop_entry_fields)
  moreover have "handle_event (KeyDown SDLK_m) (poll_events es ?s) =
      (poll_events es ?s)\<lparr>music := Paused, trace := trace (poll_events es ?s) @ [PauseMusic]\<rparr>"
    using m by (simp add: handle_KeyDown audio_control_cases)
  ultimately show ?thesis using assms(2) by (simp add: loop_entry_fields)
qed

theorem C9_music_started_witness:
  "startup env_ok =
     ([Init SDL, Init SDL_mixer, Init SDL_image, Init SDL_ttf,
       Acquire Window, Acquire Renderer, Acquire Font,
       Acquire Surface, Acquire Text, Release Surface, Acquire Image, Acquire Song],
      Some (text_200x150, image_200x200)) \<and>
   Mix_PlayMusic_ret env_ok = 0 \<and>
   list_all (list_all (\<lambda>e. \<not> is_m_down e)) [[KeyDown SDLK_UP]] \<and>
   list_all (\<lambda>e. \<not> is_m_down e) [KeyDown SDLK_3] \<and>
   music (poll_events [KeyDown SDLK_3]
           (main_loop (make_scene text_200x150 image_200x200) [[KeyDown SDLK_UP]]
              (loop_entry (Mix_PlayMusic_ret env_ok) (fst (startup env_ok))))) = Playing \<and>
   music (handle_event (KeyDown SDLK_m)
           (poll_events [KeyDown SDLK_3]
             (main_loop (make_scene text_200x150 image_200x200) [[KeyDown SDLK_UP]]
                (loop_entry (Mix_PlayMusic_ret env_ok) (fst (startup env_ok)))))) = Paused"
proof -
  have a: "list_all (list_all (\<lambda>e. \<not> is_m_down e)) [[KeyDown SDLK_UP]]"
    and b: "list_all (\<lambda>e. \<not> is_m_down e) [KeyDown SDLK_3]"
    by (simp_all add: is_m_down_def KeyDown_def)
  have r: "Mix_PlayMusic_ret env_ok = 0"
    by (simp add: env_ok_def)
  note th = C9_music_started [OF startup_env_ok r a b]
  have p: "music (poll_events [KeyDown SDLK_3]
           (main_loop (make_scene text_200x150 image_200x200) [[KeyDown SDLK_UP]]
              (loop_entry (Mix_PlayMusic_ret env_ok) (fst (startup env_ok))))) = Playing"
    using th [THEN conjunct2, THEN conjunct2, THEN conjunct2, THEN conjunct1]
    by (simp only: startup_env_ok fst_conv)
  have q: "music (handle_event (KeyDown SDLK_m)
           (poll_events [KeyDown SDLK_3]
             (main_loop (make_scene text_200x150 image_200x200) [[KeyDown SDLK_UP]]
                (loop_entry (Mix_PlayMusic_ret env_ok) (fst (startup env_ok)))))) = Paused"
    unfolding startup_env_ok fst_conv
    by (subst th [THEN conjunct2, THEN conjunct2, THEN conjunct2, THEN conjunct2]) simp
  from startup_env_ok r a b p q show ?thesis by blast
qed

theorem C9_counterexample:
  "snd (startup env_no_play) = Some (text_200x150, image_200x200) \<and>
   Mix_PlayMusic_ret env_no_play = - 1 \<and>
   music (loop_entry (Mix_PlayMusic_ret env_no_play) (fst (startup env_no_play))) = Stopped \<and>
   calls (main env_no_play [[KeyDown SDLK_m]]) =
     [Init SDL, Init SDL_mixer, Init SDL_image, Init SDL_ttf,
      Acquire Window, Acquire Renderer, Acquire Font,
      Acquire Surface, Acquire Text, Release Surface, Acquire Image, Acquire Song,
      PlayMusic (- 1),
      PlayMusic (- 1),
      RenderClear,
      RenderCopy Renderer (Some image_200x200)
        (Some \<lparr>rect_x = 0, rect_y = 0, rect_w = 100, rect_h = 100\<rparr>)
        \<lparr>rect_x = 316, rect_y = 382, rect_w = 100, rect_h = 100\<rparr>,
      RenderCopy Renderer (Some text_200x150) None
        \<lparr>rect_x = 266, rect_y = 357, rect_w = 200, rect_h = 150\<rparr>,
      RenderPresent]"
proof -
  have r: "Mix_PlayMusic_ret env_no_play = - 1"
    by (simp add: env_no_play_def)
  have m: "handle_event (KeyDown SDLK_m) (loop_entry (- 1) t) =
             (loop_entry (- 1) t)\<lparr>music := Playing, trace := t @ [PlayMusic (- 1), PlayMusic (- 1)]\<rparr>"
    for t
    by (simp add: handle_KeyDown audio_control_cases loop_entry_fields)
  have c: "calls (main env_no_play [[KeyDown SDLK_m]]) =
     [Init SDL, Init SDL_mixer, Init SDL_image, Init SDL_ttf,
      Acquire Window, Acquire Renderer, Acquire Font,
      Acquire Surface, Acquire Text, Release Surface, Acquire Image, Acquire Song,
      PlayMusic (- 1),
      PlayMusic (- 1),
      RenderClear,
      RenderCopy Renderer (Some image_200x200)
        (Some \<lparr>rect_x = 0, rect_y = 0, rect_w = 100, rect_h = 100\<rparr>)
        \<lparr>rect_x = 316, rect_y = 382, rect_w = 100, rect_h = 100\<rparr>,
      RenderCopy Renderer (Some text_200x150) None
        \<lparr>rect_x = 266, rect_y = 357, rect_w = 200, rect_h = 150\<rparr>,
      RenderPresent]"
    by (simp add: main_def startup_env_no_play r m render_fields loop_entry_fields frame_200)
  from r c show ?thesis
    by (simp add: startup_env_no_play loop_entry_fields)
qed

text \<open>
  C10. A key-down changes at most the component designated for its key: digit and keypad
  1-4 the clip index, Up/W and Down/S the y position, Left/A and Right/D the x position,
  M the music state (with the mixer call written to the log), Q and Escape the quit flag,
  and any other key nothing. A window-close event changes at most the quit flag, and an
  event of any other type changes nothing.
\<close>

theorem C10_frame:
  "changes_only (designated k) s (handle_event (KeyDown k) s) \<and>
   changes_only Quit_flag s (handle_event \<lparr>ev_type = SDL_QUIT, ev_sym = k\<rparr> s) \<and>
   handle_event \<lparr>ev_type = SDL_other_event n, ev_sym = k\<rparr> s = s"
proof -
  have "handle_event \<lparr>ev_type = SDL_QUIT, ev_sym = k\<rparr> s = s\<lparr>quit := True\<rparr>"
    and "handle_event \<lparr>ev_type = SDL_other_event n, ev_sym = k\<rparr> s = s"
    by (simp_all add: handle_event_def)
  then show ?thesis
    by (simp add: handle_KeyDown key_down_frame)
qed


end
